theory Spec2Isabelle
  imports Complex_Main
begin

section \<open>Data model of \<open>src/data-manager.tsx\<close>\<close>

text \<open>
  The component \<open>UploadCSVChart\<close> keeps the parsed rows of a CSV file, the column
  names, the selected fields and the chart type, and draws a chart into an \<open>svg\<close>
  element with d3.

  A cell of a parsed row is a JavaScript value. With \<open>dynamicTyping\<close> the parser
  produces numbers, booleans, strings and \<open>null\<close>; reading a key the row does not
  have gives \<open>undefined\<close>. JavaScript numbers are modelled as reals: rounding and
  the infinities of IEEE doubles are outside the model, and \<open>NaN\<close> is the value
  \<open>None\<close> of \<open>real option\<close>.
\<close>

datatype jsval = Undefined | Null | JBool bool | JNum real | JStr string

text \<open>
  A row is an object: its entries in the order \<open>Object.keys\<close> lists them.
  \<open>getField d f\<close> is the property read \<open>d[f]\<close>.
\<close>

type_synonym row = "(string \<times> jsval) list"

definition getField :: "row \<Rightarrow> string \<Rightarrow> jsval" where
  "getField d f = (case map_of d f of None \<Rightarrow> Undefined | Some v \<Rightarrow> v)"

definition objectKeys :: "row \<Rightarrow> string list" where
  "objectKeys d = map fst d"

text \<open>
  \<open>ToNumber\<close> is the coercion of the unary \<open>+\<close> and of \<open>isNaN\<close>. On a string it
  is the runtime's \<open>StringToNumber\<close>, which is not code of the repository: it is
  the parameter \<open>s2n\<close> of every function that coerces, and every theorem below
  holds for each \<open>s2n\<close>.
\<close>

fun ToNumber :: "(string \<Rightarrow> real option) \<Rightarrow> jsval \<Rightarrow> real option" where
  "ToNumber s2n Undefined = None"
| "ToNumber s2n Null = Some 0"
| "ToNumber s2n (JBool b) = Some (if b then 1 else 0)"
| "ToNumber s2n (JNum r) = Some r"
| "ToNumber s2n (JStr s) = s2n s"

definition isNaN :: "(string \<Rightarrow> real option) \<Rightarrow> jsval \<Rightarrow> bool" where
  "isNaN s2n v = (ToNumber s2n v = None)"

text \<open>The loose comparison \<open>v != null\<close> is false for \<open>null\<close> and \<open>undefined\<close> only.\<close>

fun notNullish :: "jsval \<Rightarrow> bool" where
  "notNullish Undefined = False"
| "notNullish Null = False"
| "notNullish _ = True"

text \<open>
  A coercion of strings to instantiate \<open>s2n\<close> at concrete inputs: the empty string
  is 0, a string of decimal digits is its value, and every other string is taken to
  \<open>NaN\<close>. It agrees with \<open>StringToNumber\<close> on the strings used below.
\<close>

definition digitVal :: "char \<Rightarrow> nat option" where
  "digitVal c = (let n = of_char c :: nat in if 48 \<le> n \<and> n \<le> 57 then Some (n - 48) else None)"

fun digitsVal :: "nat \<Rightarrow> string \<Rightarrow> nat option" where
  "digitsVal acc [] = Some acc"
| "digitsVal acc (c # cs) =
     (case digitVal c of None \<Rightarrow> None | Some d \<Rightarrow> digitsVal (10 * acc + d) cs)"

definition decimalToNumber :: "string \<Rightarrow> real option" where
  "decimalToNumber s = map_option real (digitsVal 0 s)"

section \<open>The filtered series (lines 60-62 and 125-127)\<close>

text \<open>
  \<open>data.filter(d => d[xField] != null && d[yField] != null && !isNaN(d[yField]))\<close>,
  written twice in the source, in \<open>drawLineChart\<close> and in \<open>drawBarChart\<close>.
\<close>

definition validRow :: "(string \<Rightarrow> real option) \<Rightarrow> string \<Rightarrow> string \<Rightarrow> row \<Rightarrow> bool" where
  "validRow s2n xf yf d =
     (notNullish (getField d xf) \<and> notNullish (getField d yf)
      \<and> \<not> isNaN s2n (getField d yf))"

definition filteredData :: "(string \<Rightarrow> real option) \<Rightarrow> row list \<Rightarrow> string \<Rightarrow> string \<Rightarrow> row list" where
  "filteredData s2n rows xf yf = filter (validRow s2n xf yf) rows"

text \<open>\<open>filteredData.map(d => +d[yField])\<close>\<close>

definition yValues :: "(string \<Rightarrow> real option) \<Rightarrow> row list \<Rightarrow> string \<Rightarrow> real option list" where
  "yValues s2n fd yf = map (\<lambda>d. ToNumber s2n (getField d yf)) fd"

section \<open>The d3 functions the component calls\<close>

text \<open>
  d3 is a library, not code of the repository. Each function below is modelled from
  the spec's description of what the component obtains from it, with the documented
  behaviour of d3-array 3 and d3-scale 4 where the spec is silent.
\<close>

text \<open>
  Modelled from the spec: \<open>d3.rollups\<close> (d3-array, not under src/) groups the values
  by key "in order of first appearance, each group listed exactly once". The library
  keeps a Map from key to group: a value whose key is new opens a group at the end, a
  value whose key is known joins its group. Keys are compared as a Map compares
  primitives, which is equality of \<open>jsval\<close>.
\<close>

fun group_insert :: "'k \<Rightarrow> 'a \<Rightarrow> ('k \<times> 'a list) list \<Rightarrow> ('k \<times> 'a list) list" where
  "group_insert k v [] = [(k, [v])]"
| "group_insert k v ((k', vs) # gs) =
     (if k' = k then (k', vs @ [v]) # gs else (k', vs) # group_insert k v gs)"

definition d3_groups :: "'a list \<Rightarrow> ('a \<Rightarrow> 'k) \<Rightarrow> ('k \<times> 'a list) list" where
  "d3_groups values keyof = foldl (\<lambda>gs v. group_insert (keyof v) v gs) [] values"

definition d3_rollups :: "'a list \<Rightarrow> ('a list \<Rightarrow> 'r) \<Rightarrow> ('a \<Rightarrow> 'k) \<Rightarrow> ('k \<times> 'r) list" where
  "d3_rollups values reduce keyof = map (\<lambda>(k, vs). (k, reduce vs)) (d3_groups values keyof)"

text \<open>
  Modelled from the spec: \<open>d3.sum\<close> (d3-array, not under src/) is "summing yField per
  group". The library's loop is \<open>if (value = +valueof(value)) sum += value\<close>: a value
  that coerces to \<open>NaN\<close> or to 0 is skipped.
\<close>

definition d3_sum :: "'a list \<Rightarrow> ('a \<Rightarrow> real option) \<Rightarrow> real" where
  "d3_sum values valueof =
     foldl (\<lambda>sum v. case valueof v of None \<Rightarrow> sum
                     | Some x \<Rightarrow> if x = 0 then sum else sum + x) 0 values"

text \<open>
  Modelled from the spec: \<open>d3.max\<close> (d3-array, not under src/) is "the observed
  maximum". The library's loop keeps the greatest value, skips \<open>NaN\<close>, and returns
  \<open>undefined\<close> (here \<open>None\<close>) when no value is left.
\<close>

definition d3_max :: "real option list \<Rightarrow> real option" where
  "d3_max values =
     foldl (\<lambda>m v. case v of None \<Rightarrow> m
                   | Some x \<Rightarrow> (case m of None \<Rightarrow> Some x
                                | Some y \<Rightarrow> if y < x then Some x else Some y)) None values"

text \<open>
  Modelled from the spec: the \<open>nice\<close> of a linear scale (d3-scale, not under src/)
  makes a scale whose "domain bounds are rounded outward to human-friendly tick
  values". \<open>tickIncrement\<close> (d3-array) gives the tick step for \<open>count\<close> ticks: a
  power of ten times 1, 2, 5 or 10, returned as the negated inverse step when the
  step is below 1. A step that is not a positive number makes the library's result
  non-finite: that is \<open>None\<close>.
\<close>

definition tickIncrement :: "real \<Rightarrow> real \<Rightarrow> real \<Rightarrow> real option" where
  "tickIncrement start stop count =
     (let step = (stop - start) / max 0 count in
      if step \<le> 0 then None
      else
        let power = \<lfloor>log 10 step\<rfloor>;
            error = step / (10 powi power);
            factor = (if error \<ge> sqrt 50 then 10 else if error \<ge> sqrt 10 then 5
                      else if error \<ge> sqrt 2 then 2 else 1)
        in Some (if power < 0 then - (10 powi (- power)) / factor
                 else factor * (10 powi power)))"

text \<open>
  Modelled from the spec: the loop of \<open>scale.nice\<close> (d3-scale, not under src/), at
  most \<open>maxIter = 10\<close> rounds. Each round rounds the lower bound down and the
  upper bound up to a multiple of the tick step; the loop stops with the rounded
  bounds when the step repeats, and leaves the domain as it was (\<open>None\<close>) when the
  step is not finite or the rounds are used up. \<open>nice\<close> runs the loop on the
  bounds in ascending order and writes them back in the order the domain had.
  The quotients, \<open>floor\<close>, \<open>ceil\<close> and the products are exact here. The library
  computes them in doubles: it gives the same bounds where these values are integers
  below \<open>2^53\<close>, and its bounds can differ from the exact ones, by a rounding step
  or by a tick, when the bounds are fractions.
\<close>

fun nice_loop :: "nat \<Rightarrow> real option \<Rightarrow> real \<Rightarrow> real \<Rightarrow> (real \<times> real) option" where
  "nice_loop 0 prestep start stop = None"
| "nice_loop (Suc maxIter) prestep start stop =
     (case tickIncrement start stop 10 of
        None \<Rightarrow> None
      | Some step \<Rightarrow>
          if Some step = prestep then Some (start, stop)
          else if step > 0 then
            nice_loop maxIter (Some step)
              (of_int \<lfloor>start / step\<rfloor> * step) (of_int \<lceil>stop / step\<rceil> * step)
          else if step < 0 then
            nice_loop maxIter (Some step)
              (of_int \<lceil>start * step\<rceil> / step) (of_int \<lfloor>stop * step\<rfloor> / step)
          else None)"

definition nice :: "real \<times> real \<Rightarrow> real \<times> real" where
  "nice d =
     (let (d0, d1) = d in
      if d1 < d0 then
        (case nice_loop 10 None d1 d0 of
           None \<Rightarrow> d | Some (start, stop) \<Rightarrow> (stop, start))
      else
        (case nice_loop 10 None d0 d1 of
           None \<Rightarrow> d | Some (start, stop) \<Rightarrow> (start, stop)))"

text \<open>
  \<open>d3.scaleLinear().domain([0, d3.max(yValues) ?? 0]).nice()\<close>, lines 77-79 and
  136-138: the domain of the vertical scale.
\<close>

definition yScaleDomain :: "real option list \<Rightarrow> real \<times> real" where
  "yScaleDomain ys = nice (0, case d3_max ys of None \<Rightarrow> 0 | Some m \<Rightarrow> m)"

text \<open>
  Modelled from the spec: \<open>d3.scaleOrdinal(d3.schemeCategory10)\<close> (d3-scale and
  d3-scale-chromatic, not under src/) is the "stable per-category color assignment".
  The scale keeps its domain in order of first appearance; a key at index \<open>i\<close> of
  the domain maps to \<open>range[i % range.length]\<close>, and a key not yet in the domain is
  appended to it first.
\<close>

definition schemeCategory10 :: "string list" where
  "schemeCategory10 =
     [''#1f77b4'', ''#ff7f0e'', ''#2ca02c'', ''#d62728'', ''#9467bd'',
      ''#8c564b'', ''#e377c2'', ''#7f7f7f'', ''#bcbd22'', ''#17becf'']"

text \<open>
  Modelled from the spec: \<open>scale.domain(keys)\<close> and the call \<open>scale(d)\<close> of the
  ordinal scale (d3-scale, not under src/). The call returns the colour together
  with the domain, which grows when the key is new.
\<close>

definition ordinal_domain :: "'k list \<Rightarrow> 'k list" where
  "ordinal_domain ks = foldl (\<lambda>domain k. if k \<in> set domain then domain else domain @ [k]) [] ks"

fun index_of :: "'k \<Rightarrow> 'k list \<Rightarrow> nat option" where
  "index_of k [] = None"
| "index_of k (k' # ks) = (if k' = k then Some 0 else map_option Suc (index_of k ks))"

definition ordinal_scale :: "'k list \<Rightarrow> 'r list \<Rightarrow> 'k \<Rightarrow> 'r \<times> 'k list" where
  "ordinal_scale domain scheme d =
     (case index_of d domain of
        Some i \<Rightarrow> (scheme ! (i mod length scheme), domain)
      | None \<Rightarrow> (scheme ! (length domain mod length scheme), domain @ [d]))"

section \<open>The chart renderers\<close>

text \<open>
  The content of the \<open>svg\<close> element is the list of the elements appended to it.
  An element is recorded with the data bound to it and the scales it is drawn
  with; the pixel coordinates the library computes from them are not modelled. A
  horizontal scale is recorded by its kind and the values handed to it.
\<close>

datatype xscale = ScaleLinear "jsval list" | ScalePoint "jsval list" | ScaleBand "jsval list"

datatype pie_mark = SlicePath jsval real string | SliceText jsval

datatype mark =
    AxisBottom xscale
  | AxisLeft "real \<times> real"
  | LinePath "row list"
  | Circle row
  | Rect row
  | PieGroup "pie_mark list"

fun isNumber :: "jsval \<Rightarrow> bool" where
  "isNumber (JNum r) = True"
| "isNumber _ = False"

text \<open>
  \<open>drawLineChart\<close>, lines 54-117, as the elements it appends to the emptied
  \<open>svg\<close>: the two axes, the path and one circle per row of the filtered series.
\<close>

definition drawLineChart :: "(string \<Rightarrow> real option) \<Rightarrow> row list \<Rightarrow> string \<Rightarrow> string \<Rightarrow> mark list" where
  "drawLineChart s2n rows xf yf =
     (let fd = filteredData s2n rows xf yf;
          xValues = map (\<lambda>d. getField d xf) fd;
          isXNumeric = list_all (\<lambda>d. isNumber (getField d xf)) fd;
          xScale = (if isXNumeric then ScaleLinear xValues else ScalePoint xValues);
          yScale = yScaleDomain (yValues s2n fd yf)
      in [AxisBottom xScale, AxisLeft yScale, LinePath fd] @ map Circle fd)"

text \<open>\<open>drawBarChart\<close>, lines 119-160: the two axes and one rectangle per row.\<close>

definition drawBarChart :: "(string \<Rightarrow> real option) \<Rightarrow> row list \<Rightarrow> string \<Rightarrow> string \<Rightarrow> mark list" where
  "drawBarChart s2n rows xf yf =
     (let fd = filteredData s2n rows xf yf;
          xValues = map (\<lambda>d. getField d xf) fd;
          xScale = ScaleBand xValues;
          yScale = yScaleDomain (yValues s2n fd yf)
      in [AxisBottom xScale, AxisLeft yScale] @ map Rect fd)"

text \<open>
  \<open>drawPieChart\<close>, lines 162-207. \<open>grouped\<close> is computed from \<open>data\<close>, not from
  a filtered series (lines 173-177). The fill of each slice is \<open>color(d.data[0])\<close>,
  asked of the scale slice after slice.
\<close>

definition grouped :: "(string \<Rightarrow> real option) \<Rightarrow> row list \<Rightarrow> string \<Rightarrow> string \<Rightarrow> (jsval \<times> real) list" where
  "grouped s2n rows xf yf =
     d3_rollups rows (\<lambda>v. d3_sum v (\<lambda>d. ToNumber s2n (getField d yf))) (\<lambda>d. getField d xf)"

fun slicePaths :: "jsval list \<Rightarrow> (jsval \<times> real) list \<Rightarrow> pie_mark list" where
  "slicePaths domain [] = []"
| "slicePaths domain ((k, v) # arcs) =
     (let (c, domain') = ordinal_scale domain schemeCategory10 k
      in SlicePath k v c # slicePaths domain' arcs)"

definition drawPieChart :: "(string \<Rightarrow> real option) \<Rightarrow> row list \<Rightarrow> string \<Rightarrow> string \<Rightarrow> mark list" where
  "drawPieChart s2n rows xf yf =
     (let arcs = grouped s2n rows xf yf;
          color = ordinal_domain (map fst arcs)
      in [PieGroup (slicePaths color arcs @ map (\<lambda>(k, v). SliceText k) arcs)])"

text \<open>
  The slices and the labels among the children of the pie chart's group, in the
  order they are drawn: each slice with the key and the value bound to it.
\<close>

fun pieSlices :: "pie_mark list \<Rightarrow> (jsval \<times> real) list" where
  "pieSlices [] = []"
| "pieSlices (SlicePath k v c # ms) = (k, v) # pieSlices ms"
| "pieSlices (SliceText k # ms) = pieSlices ms"

fun pieLabels :: "pie_mark list \<Rightarrow> jsval list" where
  "pieLabels [] = []"
| "pieLabels (SlicePath k v c # ms) = pieLabels ms"
| "pieLabels (SliceText k # ms) = k # pieLabels ms"

section \<open>The component state and its events\<close>

datatype ChartType = Line | Pie | Bar

text \<open>
  The \<open>useState\<close> cells of the component, and \<open>chartRef\<close>: the content of the
  \<open>svg\<close> element the ref points to, \<open>None\<close> while no \<open>svg\<close> element is mounted
  (\<open>chartRef.current\<close> is null).
\<close>

record state =
  data :: "row list"
  columns :: "string list"
  xField :: string
  yField :: string
  chartType :: ChartType
  showModal :: bool
  chartRef :: "mark list option"

definition initState :: state where
  "initState = \<lparr>data = [], columns = [], xField = [], yField = [], chartType = Line,
                 showModal = False, chartRef = None\<rparr>"

text \<open>The elements in the chart area: none when no \<open>svg\<close> element is mounted.\<close>

definition geometry :: "state \<Rightarrow> mark list" where
  "geometry s = (case chartRef s of None \<Rightarrow> [] | Some ms \<Rightarrow> ms)"

text \<open>
  What a change of the file input delivers: no file (\<open>e.target.files?.[0]\<close> is
  undefined), the rows the parser hands to \<open>complete\<close>, or a call of \<open>error\<close>.
\<close>

datatype file_event = NoFile | ParseComplete "row list" | ParseError

datatype event =
    FileChange file_event
  | SetChartType ChartType
  | SetXField string
  | SetYField string
  | SetShowModal bool

text \<open>The \<open>complete\<close> callback of the parse, lines 24-34.\<close>

definition parse_complete :: "state \<Rightarrow> row list \<Rightarrow> state" where
  "parse_complete s results =
     (case results of
        [] \<Rightarrow> s\<lparr>data := [], columns := []\<rparr>
      | d0 # _ \<Rightarrow> s\<lparr>data := results, columns := objectKeys d0, xField := [], yField := []\<rparr>)"

text \<open>
  \<open>handleFile\<close>, lines 16-39: without a file it returns at once; the \<open>error\<close>
  callback only logs.
\<close>

definition handleFile :: "state \<Rightarrow> file_event \<Rightarrow> state" where
  "handleFile s e =
     (case e of NoFile \<Rightarrow> s | ParseComplete results \<Rightarrow> parse_complete s results | ParseError \<Rightarrow> s)"

text \<open>
  The render, lines 209-353, as far as the chart area goes: the \<open>svg\<close> element is
  in the tree exactly when \<open>columns.length > 0\<close> (line 215). An element that
  stays in the tree keeps its content, which only d3 writes; a new element is empty.
\<close>

definition render :: "state \<Rightarrow> state" where
  "render s =
     s\<lparr>chartRef := (if columns s = [] then None
                     else (case chartRef s of None \<Rightarrow> Some [] | Some ms \<Rightarrow> Some ms))\<rparr>"

text \<open>
  The effect, lines 41-48. Each draw function returns at once when
  \<open>chartRef.current\<close> is null, and otherwise appends to the \<open>svg\<close> element that
  line 43 has emptied.
\<close>

definition draw :: "(string \<Rightarrow> real option) \<Rightarrow> state \<Rightarrow> mark list" where
  "draw s2n s =
     (case chartType s of
        Line \<Rightarrow> drawLineChart s2n (data s) (xField s) (yField s)
      | Bar \<Rightarrow> drawBarChart s2n (data s) (xField s) (yField s)
      | Pie \<Rightarrow> drawPieChart s2n (data s) (xField s) (yField s))"

definition useEffect :: "(string \<Rightarrow> real option) \<Rightarrow> state \<Rightarrow> state" where
  "useEffect s2n s =
     (if data s = [] \<or> xField s = [] \<or> yField s = [] then s
      else s\<lparr>chartRef := (case chartRef s of None \<Rightarrow> None | Some _ \<Rightarrow> Some (draw s2n s))\<rparr>)"

text \<open>
  One event of the component. The setter calls of one handler are applied as one
  update, followed by the render and, when one of \<open>data\<close>, \<open>chartType\<close>,
  \<open>xField\<close>, \<open>yField\<close> has changed, by the effect. \<open>setData\<close> always stores a new
  array, so the effect runs after every completed parse; a setter called with the
  value the state already has causes no render. The selects and the modal controls
  exist only while \<open>columns.length > 0\<close>, and a select offers \<open>""\<close> and the columns.
\<close>

definition step :: "(string \<Rightarrow> real option) \<Rightarrow> state \<Rightarrow> event \<Rightarrow> state" where
  "step s2n s ev =
     (case ev of
        FileChange NoFile \<Rightarrow> handleFile s NoFile
      | FileChange ParseError \<Rightarrow> handleFile s ParseError
      | FileChange (ParseComplete results) \<Rightarrow>
          useEffect s2n (render (handleFile s (ParseComplete results)))
      | SetChartType c \<Rightarrow>
          if columns s \<noteq> [] \<and> c \<noteq> chartType s
          then useEffect s2n (render (s\<lparr>chartType := c\<rparr>)) else s
      | SetXField f \<Rightarrow>
          if columns s \<noteq> [] \<and> f \<in> set ([] # columns s) \<and> f \<noteq> xField s
          then useEffect s2n (render (s\<lparr>xField := f\<rparr>)) else s
      | SetYField f \<Rightarrow>
          if columns s \<noteq> [] \<and> f \<in> set ([] # columns s) \<and> f \<noteq> yField s
          then useEffect s2n (render (s\<lparr>yField := f\<rparr>)) else s
      | SetShowModal b \<Rightarrow>
          if columns s \<noteq> [] then render (s\<lparr>showModal := b\<rparr>) else s)"

text \<open>The run of a list of events from the state after the first render.\<close>

definition run :: "(string \<Rightarrow> real option) \<Rightarrow> event list \<Rightarrow> state" where
  "run s2n evs = foldl (step s2n) initState evs"

section \<open>The spec's order of first appearance\<close>

text \<open>
  The spec lists the groups of the pie chart "in order of first appearance, each group
  listed exactly once". \<open>first_seen\<close> is that order, written from the spec's words:
  the first element, then the first-appearance order of the rest without it.
\<close>

fun first_seen :: "'a list \<Rightarrow> 'a list" where
  "first_seen [] = []"
| "first_seen (x # xs) = x # filter (\<lambda>y. y \<noteq> x) (first_seen xs)"

section \<open>Example datasets\<close>

text \<open>
  The rows of the spec's examples: the pie aggregation example, a second file, a row
  whose value is the text \<open>abc\<close>, eleven categories, a series of negative values,
  the values 0, 5, 10, and a file whose value column holds text only.
\<close>

definition rowsA :: "row list" where
  "rowsA = [[(''cat'', JStr ''a''), (''v'', JNum 1)],
            [(''cat'', JStr ''a''), (''v'', JNum 2)],
            [(''cat'', JStr ''b''), (''v'', JNum 3)]]"

definition rowsB :: "row list" where
  "rowsB = [[(''k'', JStr ''z''), (''w'', JNum 7)]]"

definition rowsAbc :: "row list" where
  "rowsAbc = [[(''cat'', JStr ''a''), (''v'', JNum 1)],
              [(''cat'', JStr ''b''), (''v'', JStr ''abc'')]]"

definition rows11 :: "row list" where
  "rows11 = map (\<lambda>n. [(''cat'', JNum (real n)), (''v'', JNum 1)]) [0..<11]"



definition rowsText :: "row list" where
  "rowsText = [[(''a'', JStr ''x''), (''b'', JStr ''abc'')]]"

text \<open>
  The state after a file with the rows \<open>rowsA\<close> is loaded, the pie chart is chosen
  and \<open>cat\<close> is selected as the x field.
\<close>

definition stateCat :: state where
  "stateCat = run decimalToNumber
     [FileChange (ParseComplete rowsA), SetChartType Pie, SetXField ''cat'']"

text \<open>
  The state in which the rows \<open>rowsText\<close> are loaded, the bar chart is chosen and
  both fields are selected, before the effect has run.
\<close>

definition stateText :: state where
  "stateText = \<lparr>data = rowsText, columns = [''a'', ''b''], xField = ''a'', yField = ''b'',
                 chartType = Bar, showModal = False, chartRef = Some []\<rparr>"

section \<open>Grouping and summing\<close>

lemma set_first_seen: "set (first_seen xs) = set xs"
  by (induction xs) auto

lemma distinct_first_seen: "distinct (first_seen xs)"
  by (induction xs) (auto simp: set_first_seen)

lemma first_seen_snoc:
  "first_seen (xs @ [x]) = (if x \<in> set xs then first_seen xs else first_seen xs @ [x])"
  by (induction xs) auto

lemma keys_group_insert:
  "map fst (group_insert k v gs) = (if k \<in> set (map fst gs) then map fst gs else map fst gs @ [k])"
  by (induction gs) force+

lemma map_of_group_insert:
  "map_of (group_insert k v gs) k' =
     (if k' = k then Some ((case map_of gs k of None \<Rightarrow> [] | Some vs \<Rightarrow> vs) @ [v])
      else map_of gs k')"
  by (induction gs) auto

lemma keys_d3_groups: "map fst (d3_groups xs f) = first_seen (map f xs)"
proof (induction xs rule: rev_induct)
  case Nil
  show ?case by (simp add: d3_groups_def)
next
  case (snoc x xs)
  have "d3_groups (xs @ [x]) f = group_insert (f x) x (d3_groups xs f)"
    by (simp add: d3_groups_def)
  then show ?case
    using snoc by (simp add: keys_group_insert first_seen_snoc set_first_seen)
qed

lemma map_of_d3_groups:
  "map_of (d3_groups xs f) k =
     (if k \<in> f ` set xs then Some (filter (\<lambda>v. f v = k) xs) else None)"
proof (induction xs arbitrary: k rule: rev_induct)
  case Nil
  show ?case by (simp add: d3_groups_def)
next
  case (snoc x xs)
  have "d3_groups (xs @ [x]) f = group_insert (f x) x (d3_groups xs f)"
    by (simp add: d3_groups_def)
  then show ?case
    using snoc [of k] snoc [of "f x"] by (auto simp: map_of_group_insert empty_filter_conv image_iff)
qed

lemma foldl_d3_sum:
  "foldl (\<lambda>sum v. case g v of None \<Rightarrow> sum | Some x \<Rightarrow> if x = 0 then sum else sum + x) a vs
     = (a::real) + sum_list (map (\<lambda>v. case g v of None \<Rightarrow> 0 | Some x \<Rightarrow> x) vs)"
  by (induction vs arbitrary: a) (auto split: option.splits)

lemma d3_sum_sum_list:
  "d3_sum vs g = sum_list (map (\<lambda>v. case g v of None \<Rightarrow> 0 | Some x \<Rightarrow> x) vs)"
  by (simp add: d3_sum_def foldl_d3_sum)

lemma keys_d3_rollups: "map fst (d3_rollups xs r f) = first_seen (map f xs)"
proof -
  have "map fst (d3_rollups xs r f) = map fst (d3_groups xs f)"
    by (simp add: d3_rollups_def comp_def case_prod_unfold)
  then show ?thesis by (simp add: keys_d3_groups)
qed

lemma map_of_d3_rollups:
  "map_of (d3_rollups xs r f) k = map_option r (map_of (d3_groups xs f) k)"
proof -
  have "map_of (map (\<lambda>(k, vs). (k, r vs)) gs) k = map_option r (map_of gs k)" for gs
    by (induction gs) auto
  then show ?thesis by (simp add: d3_rollups_def)
qed

lemma keys_grouped: "map fst (grouped s2n rows xf yf) = first_seen (map (\<lambda>d. getField d xf) rows)"
  by (simp add: grouped_def keys_d3_rollups)

lemma distinct_keys_grouped: "distinct (map fst (grouped s2n rows xf yf))"
  by (simp add: keys_grouped distinct_first_seen)

lemma value_grouped:
  assumes "k \<in> set (map fst (grouped s2n rows xf yf))"
  shows "map_of (grouped s2n rows xf yf) k =
     Some (sum_list (map (\<lambda>d. case ToNumber s2n (getField d yf) of None \<Rightarrow> 0 | Some y \<Rightarrow> y)
                         (filter (\<lambda>d. getField d xf = k) rows)))"
proof -
  from assms have "k \<in> (\<lambda>d. getField d xf) ` set rows"
    by (simp add: keys_grouped set_first_seen)
  then show ?thesis
    by (simp add: grouped_def map_of_d3_rollups map_of_d3_groups d3_sum_sum_list)
qed

lemmas pie_eval = drawPieChart_def grouped_def d3_rollups_def d3_groups_def d3_sum_def
  getField_def ordinal_domain_def ordinal_scale_def schemeCategory10_def

lemma grouped_rowsA: "grouped s2n rowsA ''cat'' ''v'' = [(JStr ''a'', 3), (JStr ''b'', 3)]"
  by (simp add: rowsA_def pie_eval)

section \<open>The colour scale\<close>

lemma length_schemeCategory10: "length schemeCategory10 = 10"
  by (simp add: schemeCategory10_def)

lemma index_of_nth: "distinct ks \<Longrightarrow> i < length ks \<Longrightarrow> index_of (ks ! i) ks = Some i"
proof (induction ks arbitrary: i)
  case Nil
  then show ?case by simp
next
  case (Cons k ks)
  show ?case
  proof (cases i)
    case 0
    then show ?thesis by simp
  next
    case (Suc j)
    with Cons.prems have "ks ! j \<in> set ks" "k \<notin> set ks" by auto
    then have "k \<noteq> ks ! j" by auto
    with Cons Suc show ?thesis by simp
  qed
qed

lemma foldl_ordinal_domain:
  "distinct (acc @ ks) \<Longrightarrow>
     foldl (\<lambda>domain k. if k \<in> set domain then domain else domain @ [k]) acc ks = acc @ ks"
  by (induction ks arbitrary: acc) auto

lemma ordinal_domain_distinct: "distinct ks \<Longrightarrow> ordinal_domain ks = ks"
  using foldl_ordinal_domain [of "[]" ks] by (simp add: ordinal_domain_def)

lemma slicePaths_known:
  "distinct (pk @ map fst arcs) \<Longrightarrow>
     slicePaths (pk @ map fst arcs) arcs =
       map (\<lambda>(i, (k, v)). SlicePath k v (schemeCategory10 ! (i mod 10))) (enumerate (length pk) arcs)"
proof (induction arcs arbitrary: pk)
  case Nil
  show ?case by simp
next
  case (Cons a arcs)
  obtain k v where a: "a = (k, v)" by (cases a)
  let ?D = "pk @ map fst (a # arcs)"
  have "index_of (?D ! length pk) ?D = Some (length pk)"
    using Cons.prems by (intro index_of_nth) simp_all
  then have ix: "index_of k ?D = Some (length pk)"
    by (simp add: a nth_append)
  have D: "?D = (pk @ [k]) @ map fst arcs" by (simp add: a)
  have "slicePaths ?D arcs =
      map (\<lambda>(i, (k, v)). SlicePath k v (schemeCategory10 ! (i mod 10))) (enumerate (length (pk @ [k])) arcs)"
    unfolding D using Cons.prems by (intro Cons.IH) (simp add: a)
  then show ?case
    using ix by (simp add: a ordinal_scale_def length_schemeCategory10)
qed

lemma slicePaths_grouped:
  "slicePaths (ordinal_domain (map fst (grouped s2n rows xf yf))) (grouped s2n rows xf yf) =
     map (\<lambda>(i, (k, v)). SlicePath k v (schemeCategory10 ! (i mod 10)))
         (enumerate 0 (grouped s2n rows xf yf))"
  using slicePaths_known [of "[]" "grouped s2n rows xf yf"]
  by (simp add: ordinal_domain_distinct distinct_keys_grouped)

lemma drawPieChart_marks:
  "drawPieChart s2n rows xf yf =
     [PieGroup (map (\<lambda>(i, (k, v)). SlicePath k v (schemeCategory10 ! (i mod 10)))
                    (enumerate 0 (grouped s2n rows xf yf))
                @ map (\<lambda>(k, v). SliceText k) (grouped s2n rows xf yf))]"
  by (simp add: drawPieChart_def Let_def slicePaths_grouped)

lemma pieSlices_append: "pieSlices (ms @ ns) = pieSlices ms @ pieSlices ns"
  by (induction ms rule: pieSlices.induct) simp_all

lemma pieLabels_append: "pieLabels (ms @ ns) = pieLabels ms @ pieLabels ns"
  by (induction ms rule: pieLabels.induct) simp_all

lemma pieSlices_slices:
  "pieSlices (map (\<lambda>(i, (k, v)). SlicePath k v (f i)) (enumerate n g)) = g"
  by (induction g arbitrary: n) auto

lemma pieLabels_slices:
  "pieLabels (map (\<lambda>(i, (k, v)). SlicePath k v (f i)) (enumerate n g)) = []"
  by (induction g arbitrary: n) auto

lemma pieSlices_texts: "pieSlices (map (\<lambda>(k, v). SliceText k) g) = []"
  by (induction g) auto

lemma pieLabels_texts: "pieLabels (map (\<lambda>(k, v). SliceText k) g) = map fst g"
  by (induction g) auto

lemma drawPieChart_once:
  "\<exists>ms. drawPieChart s2n rows xf yf = [PieGroup ms]
        \<and> pieSlices ms = grouped s2n rows xf yf
        \<and> pieLabels ms = map fst (grouped s2n rows xf yf)"
  by (simp add: drawPieChart_marks pieSlices_append pieLabels_append pieSlices_slices
      pieLabels_slices pieSlices_texts pieLabels_texts)

lemma drawPieChart_rowsA:
  "drawPieChart s2n rowsA ''cat'' ''v'' =
     [PieGroup [SlicePath (JStr ''a'') 3 ''#1f77b4'', SlicePath (JStr ''b'') 3 ''#ff7f0e'',
                SliceText (JStr ''a''), SliceText (JStr ''b'')]]"
  by (simp add: drawPieChart_marks grouped_rowsA schemeCategory10_def)

lemma slice_in_marks:
  assumes "i < length g"
  shows "SlicePath (fst (g ! i)) (snd (g ! i)) (schemeCategory10 ! (i mod 10))
           \<in> set (map (\<lambda>(i, (k, v)). SlicePath k v (schemeCategory10 ! (i mod 10))) (enumerate 0 g))"
proof -
  have "(i, g ! i) \<in> set (enumerate 0 g)"
    using assms by (simp add: in_set_enumerate_eq)
  then have "(\<lambda>(i, (k, v)). SlicePath k v (schemeCategory10 ! (i mod 10))) (i, g ! i)
      \<in> set (map (\<lambda>(i, (k, v)). SlicePath k v (schemeCategory10 ! (i mod 10))) (enumerate 0 g))"
    by (simp only: set_map) (rule imageI)
  then show ?thesis by (simp add: case_prod_unfold)
qed

lemma grouped_rows11:
  "grouped decimalToNumber rows11 ''cat'' ''v'' = map (\<lambda>n. (JNum (real n), 1)) [0..<11]"
  by (simp add: rows11_def upt_rec pie_eval)

section \<open>The vertical scale\<close>



lemma d3_max_fold:
  "foldl (\<lambda>m v. case v of None \<Rightarrow> m
                 | Some x \<Rightarrow> (case m of None \<Rightarrow> Some x
                              | Some y \<Rightarrow> if y < x then Some x else Some y)) (acc :: real option) ys = r \<Longrightarrow>
   (case r of
      None \<Rightarrow> acc = None \<and> (\<forall>y. Some y \<notin> set ys)
    | Some m \<Rightarrow> (\<forall>a. acc = Some a \<longrightarrow> a \<le> m) \<and> (\<forall>y. Some y \<in> set ys \<longrightarrow> y \<le> m)
                \<and> (acc = Some m \<or> Some m \<in> set ys))"
proof (induction ys arbitrary: acc)
  case Nil
  then show ?case by (auto split: option.splits)
next
  case (Cons v ys)
  show ?case
    using Cons.IH [OF Cons.prems [simplified]] 
    by (cases v; cases acc; cases r) (auto split: if_splits)
qed


lemma d3_max_mem: "d3_max ys = Some m \<Longrightarrow> Some m \<in> set ys"
  using d3_max_fold [of None ys "Some m"] by (simp add: d3_max_def)

lemma d3_max_None: "d3_max ys = None \<Longrightarrow> Some y \<notin> set ys"
  using d3_max_fold [of None ys None] by (simp add: d3_max_def)
















section \<open>The effect and the events\<close>

lemmas step_eval = step_def handleFile_def parse_complete_def render_def useEffect_def
  draw_def objectKeys_def

lemma useEffect_chartRef:
  "chartRef (useEffect s2n s) \<noteq> chartRef s \<Longrightarrow> data s \<noteq> [] \<and> xField s \<noteq> [] \<and> yField s \<noteq> []"
  by (auto simp: useEffect_def split: if_splits)

lemma useEffect_fields:
  "data (useEffect s2n s) = data s" "xField (useEffect s2n s) = xField s"
  "yField (useEffect s2n s) = yField s"
  by (simp_all add: useEffect_def)

lemma geometry_render:
  "geometry (render s) = [] \<or> geometry (render s) = geometry s"
  by (simp add: render_def geometry_def split: option.splits)

lemma geometry_useEffect_render:
  assumes "geometry (useEffect s2n (render s)) \<noteq> []"
    and "geometry (useEffect s2n (render s)) \<noteq> geometry s"
  shows "data s \<noteq> [] \<and> xField s \<noteq> [] \<and> yField s \<noteq> []"
proof (rule ccontr)
  assume "\<not> ?thesis"
  then have "useEffect s2n (render s) = render s"
    by (auto simp: useEffect_def render_def)
  with assms geometry_render [of s] show False by auto
qed

lemma render_fields:
  "data (render s) = data s" "xField (render s) = xField s" "yField (render s) = yField s"
  by (simp_all add: render_def)

lemma new_file_leaves_svg:
  assumes "columns s \<noteq> []" and "results = d0 # ds" and "objectKeys d0 \<noteq> []"
  shows "chartRef (step s2n s (FileChange (ParseComplete results))) =
           (case chartRef s of None \<Rightarrow> Some [] | Some ms \<Rightarrow> Some ms)"
  using assms by (simp add: step_eval)

lemma stateCat_eq:
  "stateCat = \<lparr>data = rowsA, columns = [''cat'', ''v''], xField = ''cat'', yField = [],
                chartType = Pie, showModal = False, chartRef = Some []\<rparr>"
  by (simp add: stateCat_def run_def initState_def step_eval rowsA_def)

lemma stateText_reached:
  "useEffect decimalToNumber stateText = run decimalToNumber
     [FileChange (ParseComplete rowsText), SetChartType Bar, SetXField ''a'', SetYField ''b'']"
  by (simp add: stateText_def run_def initState_def step_eval rowsText_def)

section \<open>The claims\<close>

subsection \<open>C1: rows with a non-numeric y value\<close>

text \<open>
  Claim C1 says that a row whose yField value fails the numeric coercion is left out of
  the series of all three charts. \<open>drawLineChart\<close> and \<open>drawBarChart\<close> draw from
  \<open>filteredData\<close>; \<open>drawPieChart\<close> groups \<open>data\<close> itself. For the rows
  \<open>{cat: "a", v: 1}\<close> and \<open>{cat: "b", v: "abc"}\<close> the filtered series holds the
  first row only, and the pie chart still draws a slice (of value 0) and a label for
  the category \<open>b\<close> of the second row.
\<close>

theorem pie_keeps_non_numeric_row:
  "filteredData decimalToNumber rowsAbc ''cat'' ''v'' = [[(''cat'', JStr ''a''), (''v'', JNum 1)]]
   \<and> drawPieChart decimalToNumber rowsAbc ''cat'' ''v'' =
       [PieGroup [SlicePath (JStr ''a'') 1 ''#1f77b4'', SlicePath (JStr ''b'') 0 ''#ff7f0e'',
                  SliceText (JStr ''a''), SliceText (JStr ''b'')]]"
  by (simp add: rowsAbc_def filteredData_def validRow_def isNaN_def decimalToNumber_def
      digitVal_def pie_eval)

subsection \<open>C2: a new file while a chart is displayed\<close>

text \<open>
  Claim C2 says that after the parse of a newly selected file no geometry of the chart
  drawn before remains. In the run below a pie chart of \<open>rowsA\<close> is displayed and a
  second file with the rows \<open>rowsB\<close> is loaded: the state holds the new rows and
  the fields are reset, so the effect returns at its guard, before the line that
  empties the \<open>svg\<close>, and the chart area still shows the pie chart of \<open>rowsA\<close>.
\<close>

theorem new_file_keeps_old_chart:
  "geometry (run decimalToNumber
      [FileChange (ParseComplete rowsA), SetChartType Pie, SetXField ''cat'', SetYField ''v''])
     = [PieGroup [SlicePath (JStr ''a'') 3 ''#1f77b4'', SlicePath (JStr ''b'') 3 ''#ff7f0e'',
                  SliceText (JStr ''a''), SliceText (JStr ''b'')]]
   \<and> geometry (run decimalToNumber
      [FileChange (ParseComplete rowsA), SetChartType Pie, SetXField ''cat'', SetYField ''v'',
       FileChange (ParseComplete rowsB)])
     = [PieGroup [SlicePath (JStr ''a'') 3 ''#1f77b4'', SlicePath (JStr ''b'') 3 ''#ff7f0e'',
                  SliceText (JStr ''a''), SliceText (JStr ''b'')]]
   \<and> data (run decimalToNumber
      [FileChange (ParseComplete rowsA), SetChartType Pie, SetXField ''cat'', SetYField ''v'',
       FileChange (ParseComplete rowsB)]) = rowsB
   \<and> xField (run decimalToNumber
      [FileChange (ParseComplete rowsA), SetChartType Pie, SetXField ''cat'', SetYField ''v'',
       FileChange (ParseComplete rowsB)]) = []"
  by (simp add: run_def initState_def step_eval geometry_def rowsA_def rowsB_def pie_eval)

subsection \<open>C3: the selection after a new file\<close>

text \<open>
  Claim C3, amended: loading a file that parses to at least one row resets \<open>xField\<close>
  and \<open>yField\<close> to the empty string and leaves \<open>chartType\<close> as it was.
\<close>

theorem new_file_resets_fields:
  "results \<noteq> [] \<Longrightarrow>
     xField (step s2n s (FileChange (ParseComplete results))) = []
     \<and> yField (step s2n s (FileChange (ParseComplete results))) = []
     \<and> chartType (step s2n s (FileChange (ParseComplete results))) = chartType s"
  by (cases results) (simp_all add: step_eval)

text \<open>Claim C3 (amended), at the rows \<open>rowsB\<close> loaded in the state \<open>stateCat\<close>.\<close>

theorem new_file_resets_fields_witness:
  "rowsB \<noteq> []
   \<and> xField stateCat = ''cat''
   \<and> xField (step decimalToNumber stateCat (FileChange (ParseComplete rowsB))) = []
   \<and> yField (step decimalToNumber stateCat (FileChange (ParseComplete rowsB))) = []
   \<and> chartType (step decimalToNumber stateCat (FileChange (ParseComplete rowsB))) = Pie"
proof -
  have ne: "rowsB \<noteq> []" by (simp add: rowsB_def)
  from new_file_resets_fields [OF ne, of decimalToNumber stateCat] ne show ?thesis
    by (simp add: stateCat_eq)
qed

text \<open>
  Claim C3 as stated fails: the chart type chosen before a new file is loaded stays
  (it is not set back to \<open>line\<close>), and a file without rows leaves the selected
  fields as they were.
\<close>

theorem new_file_keeps_selection:
  "chartType (run decimalToNumber
      [FileChange (ParseComplete rowsA), SetChartType Pie, FileChange (ParseComplete rowsB)]) \<noteq> Line
   \<and> xField (run decimalToNumber
      [FileChange (ParseComplete rowsA), SetXField ''cat'', SetYField ''v'',
       FileChange (ParseComplete [])]) = ''cat''
   \<and> yField (run decimalToNumber
      [FileChange (ParseComplete rowsA), SetXField ''cat'', SetYField ''v'',
       FileChange (ParseComplete [])]) = ''v''"
  by (simp add: run_def initState_def step_eval rowsA_def rowsB_def drawLineChart_def)

subsection \<open>C4: the guard of the effect\<close>

text \<open>
  Claim C4: the chart is drawn only when the dataset is non-empty and both fields are
  selected. For every state, the effect changes the content of the chart area only
  under its guard; and for every state and every event, when the event leaves
  geometry in the chart area that differs from the geometry before it, the state after
  the event has a non-empty dataset and both fields selected.
\<close>

theorem effect_guard:
  "(chartRef (useEffect s2n s) \<noteq> chartRef s \<longrightarrow> data s \<noteq> [] \<and> xField s \<noteq> [] \<and> yField s \<noteq> [])
   \<and> (geometry (step s2n s ev) \<noteq> [] \<and> geometry (step s2n s ev) \<noteq> geometry s \<longrightarrow>
        data (step s2n s ev) \<noteq> [] \<and> xField (step s2n s ev) \<noteq> [] \<and> yField (step s2n s ev) \<noteq> [])"
proof (intro conjI impI)
  assume "chartRef (useEffect s2n s) \<noteq> chartRef s"
  then show "data s \<noteq> []" "xField s \<noteq> []" "yField s \<noteq> []"
    using useEffect_chartRef by blast+
next
  assume g: "geometry (step s2n s ev) \<noteq> [] \<and> geometry (step s2n s ev) \<noteq> geometry s"
  have "data (step s2n s ev) \<noteq> [] \<and> xField (step s2n s ev) \<noteq> [] \<and> yField (step s2n s ev) \<noteq> []"
  proof (cases ev)
    case (FileChange fe)
    show ?thesis
    proof (cases fe)
      case NoFile
      with FileChange g show ?thesis by (simp add: step_def handleFile_def)
    next
      case (ParseComplete results)
      let ?t = "handleFile s (ParseComplete results)"
      have st: "step s2n s ev = useEffect s2n (render ?t)"
        using FileChange ParseComplete by (simp add: step_def)
      have "geometry (render ?t) = [] \<or> geometry (render ?t) = geometry s"
        by (simp add: render_def geometry_def handleFile_def parse_complete_def
            split: option.splits list.splits)
      with g st have "useEffect s2n (render ?t) \<noteq> render ?t" by auto
      then have "data (render ?t) \<noteq> [] \<and> xField (render ?t) \<noteq> [] \<and> yField (render ?t) \<noteq> []"
        by (auto simp: useEffect_def)
      then show ?thesis by (simp add: st useEffect_fields)
    next
      case ParseError
      with FileChange g show ?thesis by (simp add: step_def handleFile_def)
    qed
  next
    case (SetChartType c)
    show ?thesis
    proof (cases "columns s \<noteq> [] \<and> c \<noteq> chartType s")
      case True
      then have st: "step s2n s ev = useEffect s2n (render (s\<lparr>chartType := c\<rparr>))"
        using SetChartType by (simp add: step_def)
      have "geometry (s\<lparr>chartType := c\<rparr>) = geometry s" by (simp add: geometry_def)
      with g st geometry_useEffect_render [of s2n "s\<lparr>chartType := c\<rparr>"]
      show ?thesis by (simp add: useEffect_fields render_fields)
    next
      case False
      then have "step s2n s ev = s" using SetChartType by (auto simp: step_def)
      with g show ?thesis by simp
    qed
  next
    case (SetXField f)
    show ?thesis
    proof (cases "columns s \<noteq> [] \<and> f \<in> set ([] # columns s) \<and> f \<noteq> xField s")
      case True
      then have st: "step s2n s ev = useEffect s2n (render (s\<lparr>xField := f\<rparr>))"
        using SetXField by (simp add: step_def)
      have "geometry (s\<lparr>xField := f\<rparr>) = geometry s" by (simp add: geometry_def)
      with g st geometry_useEffect_render [of s2n "s\<lparr>xField := f\<rparr>"]
      show ?thesis by (simp add: useEffect_fields render_fields)
    next
      case False
      then have "step s2n s ev = s" using SetXField by (auto simp: step_def)
      with g show ?thesis by simp
    qed
  next
    case (SetYField f)
    show ?thesis
    proof (cases "columns s \<noteq> [] \<and> f \<in> set ([] # columns s) \<and> f \<noteq> yField s")
      case True
      then have st: "step s2n s ev = useEffect s2n (render (s\<lparr>yField := f\<rparr>))"
        using SetYField by (simp add: step_def)
      have "geometry (s\<lparr>yField := f\<rparr>) = geometry s" by (simp add: geometry_def)
      with g st geometry_useEffect_render [of s2n "s\<lparr>yField := f\<rparr>"]
      show ?thesis by (simp add: useEffect_fields render_fields)
    next
      case False
      then have "step s2n s ev = s" using SetYField by (auto simp: step_def)
      with g show ?thesis by simp
    qed
  next
    case (SetShowModal b)
    have "geometry (step s2n s ev) = [] \<or> geometry (step s2n s ev) = geometry s"
      using SetShowModal by (simp add: step_def render_def geometry_def split: option.splits)
    with g show ?thesis by simp
  qed
  then show "data (step s2n s ev) \<noteq> []" "xField (step s2n s ev) \<noteq> []" "yField (step s2n s ev) \<noteq> []"
    by simp_all
qed

text \<open>
  Claim C4, at the state \<open>stateCat\<close> and the selection of \<open>v\<close> as the y field,
  which draws the pie chart.
\<close>

theorem effect_guard_witness:
  "chartRef (useEffect decimalToNumber (stateCat\<lparr>yField := ''v''\<rparr>))
      \<noteq> chartRef (stateCat\<lparr>yField := ''v''\<rparr>)
   \<and> geometry (step decimalToNumber stateCat (SetYField ''v'')) \<noteq> []
   \<and> geometry (step decimalToNumber stateCat (SetYField ''v'')) \<noteq> geometry stateCat
   \<and> data (step decimalToNumber stateCat (SetYField ''v'')) \<noteq> []
   \<and> xField (step decimalToNumber stateCat (SetYField ''v'')) \<noteq> []
   \<and> yField (step decimalToNumber stateCat (SetYField ''v'')) \<noteq> []"
proof -
  have a: "chartRef (useEffect decimalToNumber (stateCat\<lparr>yField := ''v''\<rparr>))
      \<noteq> chartRef (stateCat\<lparr>yField := ''v''\<rparr>)"
    by (simp add: stateCat_eq useEffect_def draw_def drawPieChart_def Let_def rowsA_def)
  have b: "geometry (step decimalToNumber stateCat (SetYField ''v'')) \<noteq> []"
    by (simp add: stateCat_eq step_eval geometry_def drawPieChart_def Let_def rowsA_def)
  have c: "geometry (step decimalToNumber stateCat (SetYField ''v'')) \<noteq> geometry stateCat"
    by (simp add: stateCat_eq step_eval geometry_def drawPieChart_def Let_def rowsA_def)
  from effect_guard [of decimalToNumber stateCat "SetYField ''v''"] a b c
  show ?thesis by simp
qed

subsection \<open>C5: a file without rows\<close>

text \<open>
  Claim C5: when the parse of a file yields no row, the dataset and the columns are
  empty afterwards and no chart geometry remains: with no column the \<open>svg\<close>
  element is no longer rendered. The outcome is a regular state of the component.
\<close>

theorem zero_rows_empty_state:
  "data (step s2n s (FileChange (ParseComplete []))) = []
   \<and> columns (step s2n s (FileChange (ParseComplete []))) = []
   \<and> chartRef (step s2n s (FileChange (ParseComplete []))) = None
   \<and> geometry (step s2n s (FileChange (ParseComplete []))) = []"
  by (simp add: step_eval geometry_def)

subsection \<open>C6: the domain of the vertical scale\<close>




subsection \<open>C7: the aggregation of the pie chart\<close>

text \<open>
  Claim C7: grouping on xField and summing yField gives one entry for each distinct
  xField value, each once, in order of first appearance, and the value of an entry
  is the sum of the yField values of the rows of its group (a value that does not
  coerce to a number adds nothing). \<open>drawPieChart\<close> renders each entry once: the
  slices it draws are the entries, in their order and with their values, and the
  labels it draws are their keys. For the rows \<open>{cat: "a", v: 1}\<close>,
  \<open>{cat: "a", v: 2}\<close>, \<open>{cat: "b", v: 3}\<close> the groups are \<open>a = 3\<close> and \<open>b = 3\<close>,
  drawn as two slices and two labels.
\<close>

theorem pie_aggregation:
  "map fst (grouped s2n rows xf yf) = first_seen (map (\<lambda>d. getField d xf) rows)
   \<and> set (map fst (grouped s2n rows xf yf)) = (\<lambda>d. getField d xf) ` set rows
   \<and> distinct (map fst (grouped s2n rows xf yf))
   \<and> (\<forall>k \<in> set (map fst (grouped s2n rows xf yf)).
        map_of (grouped s2n rows xf yf) k =
          Some (sum_list (map (\<lambda>d. case ToNumber s2n (getField d yf) of None \<Rightarrow> 0 | Some y \<Rightarrow> y)
                              (filter (\<lambda>d. getField d xf = k) rows))))
   \<and> (\<exists>ms. drawPieChart s2n rows xf yf = [PieGroup ms]
         \<and> pieSlices ms = grouped s2n rows xf yf
         \<and> pieLabels ms = map fst (grouped s2n rows xf yf))
   \<and> grouped s2n rowsA ''cat'' ''v'' = [(JStr ''a'', 3), (JStr ''b'', 3)]
   \<and> drawPieChart s2n rowsA ''cat'' ''v'' =
       [PieGroup [SlicePath (JStr ''a'') 3 ''#1f77b4'', SlicePath (JStr ''b'') 3 ''#ff7f0e'',
                  SliceText (JStr ''a''), SliceText (JStr ''b'')]]"
proof (intro conjI ballI)
  show "map fst (grouped s2n rows xf yf) = first_seen (map (\<lambda>d. getField d xf) rows)"
    by (rule keys_grouped)
  show "set (map fst (grouped s2n rows xf yf)) = (\<lambda>d. getField d xf) ` set rows"
    by (simp only: keys_grouped set_first_seen set_map)
  show "distinct (map fst (grouped s2n rows xf yf))"
    by (rule distinct_keys_grouped)
  show "\<exists>ms. drawPieChart s2n rows xf yf = [PieGroup ms]
         \<and> pieSlices ms = grouped s2n rows xf yf
         \<and> pieLabels ms = map fst (grouped s2n rows xf yf)"
    by (rule drawPieChart_once)
  show "grouped s2n rowsA ''cat'' ''v'' = [(JStr ''a'', 3), (JStr ''b'', 3)]"
    by (rule grouped_rowsA)
  show "drawPieChart s2n rowsA ''cat'' ''v'' =
       [PieGroup [SlicePath (JStr ''a'') 3 ''#1f77b4'', SlicePath (JStr ''b'') 3 ''#ff7f0e'',
                  SliceText (JStr ''a''), SliceText (JStr ''b'')]]"
    by (rule drawPieChart_rowsA)
next
  fix k assume "k \<in> set (map fst (grouped s2n rows xf yf))"
  then show "map_of (grouped s2n rows xf yf) k =
          Some (sum_list (map (\<lambda>d. case ToNumber s2n (getField d yf) of None \<Rightarrow> 0 | Some y \<Rightarrow> y)
                              (filter (\<lambda>d. getField d xf = k) rows)))"
    by (rule value_grouped)
qed

text \<open>Claim C7, at the rows of the spec's example.\<close>

theorem pie_aggregation_witness:
  "JStr ''a'' \<in> set (map fst (grouped decimalToNumber rowsA ''cat'' ''v''))
   \<and> map_of (grouped decimalToNumber rowsA ''cat'' ''v'') (JStr ''a'') = Some (1 + 2)
   \<and> map_of (grouped decimalToNumber rowsA ''cat'' ''v'') (JStr ''b'') = Some 3
   \<and> length (grouped decimalToNumber rowsA ''cat'' ''v'') = 2
   \<and> (\<exists>ms. drawPieChart decimalToNumber rowsA ''cat'' ''v'' = [PieGroup ms]
         \<and> pieSlices ms = [(JStr ''a'', 3), (JStr ''b'', 3)]
         \<and> pieLabels ms = [JStr ''a'', JStr ''b''])"
  using pie_aggregation [of decimalToNumber rowsA "''cat''" "''v''"]
  by (simp add: rowsA_def getField_def)

subsection \<open>C8: an empty filtered series\<close>




subsection \<open>C9: a change event without a file\<close>

text \<open>
  Claim C9: when the change event of the file input carries no file, \<open>handleFile\<close>
  returns at once and the whole state of the component is as before.
\<close>

theorem handleFile_no_file_unchanged:
  "handleFile s NoFile = s \<and> step s2n s (FileChange NoFile) = s"
  by (simp add: handleFile_def step_def)

subsection \<open>C10: the colours of the slices\<close>

text \<open>
  Claim C10: the slice of the \<open>i\<close>-th group, in order of first appearance, is filled
  with colour \<open>i mod 10\<close> of the ten colours of the scheme, so the fill depends on
  the position of the key in the grouped order only; with more than ten groups two
  slices of distinct categories have the same fill.
\<close>

theorem pie_colors_cycle:
  "drawPieChart s2n rows xf yf =
     [PieGroup (map (\<lambda>(i, (k, v)). SlicePath k v (schemeCategory10 ! (i mod 10)))
                    (enumerate 0 (grouped s2n rows xf yf))
                @ map (\<lambda>(k, v). SliceText k) (grouped s2n rows xf yf))]
   \<and> (10 < length (grouped s2n rows xf yf) \<longrightarrow>
        (\<exists>ms k1 v1 k2 v2 c. drawPieChart s2n rows xf yf = [PieGroup ms] \<and> k1 \<noteq> k2
            \<and> SlicePath k1 v1 c \<in> set ms \<and> SlicePath k2 v2 c \<in> set ms))"
proof (intro conjI impI)
  show "drawPieChart s2n rows xf yf =
     [PieGroup (map (\<lambda>(i, (k, v)). SlicePath k v (schemeCategory10 ! (i mod 10)))
                    (enumerate 0 (grouped s2n rows xf yf))
                @ map (\<lambda>(k, v). SliceText k) (grouped s2n rows xf yf))]"
    by (rule drawPieChart_marks)
next
  let ?g = "grouped s2n rows xf yf"
  let ?sl = "map (\<lambda>(i, (k, v)). SlicePath k v (schemeCategory10 ! (i mod 10))) (enumerate 0 ?g)"
  let ?ms = "?sl @ map (\<lambda>(k, v). SliceText k) ?g"
  assume len: "10 < length ?g"
  have l0: "0 < length ?g" using len by linarith
  have ne: "fst (?g ! 0) \<noteq> fst (?g ! 10)"
  proof -
    have l: "0 < length (map fst ?g)" "10 < length (map fst ?g)"
      using len l0 by (simp_all only: length_map)
    have "distinct (map fst ?g)" by (rule distinct_keys_grouped)
    then have "map fst ?g ! 0 \<noteq> map fst ?g ! 10"
      using l nth_eq_iff_index_eq [of "map fst ?g" 0 10] by simp
    then show ?thesis using l0 len by (simp add: nth_map del: length_greater_0_conv)
  qed
  have "SlicePath (fst (?g ! 0)) (snd (?g ! 0)) (schemeCategory10 ! (0 mod 10)) \<in> set ?sl"
    by (rule slice_in_marks [OF l0])
  then have s0: "SlicePath (fst (?g ! 0)) (snd (?g ! 0)) (schemeCategory10 ! 0) \<in> set ?ms"
    by simp
  have "SlicePath (fst (?g ! 10)) (snd (?g ! 10)) (schemeCategory10 ! (10 mod 10)) \<in> set ?sl"
    by (rule slice_in_marks [OF len])
  then have s10: "SlicePath (fst (?g ! 10)) (snd (?g ! 10)) (schemeCategory10 ! 0) \<in> set ?ms"
    by simp
  from drawPieChart_marks [of s2n rows xf yf] ne s0 s10
  show "\<exists>ms k1 v1 k2 v2 c. drawPieChart s2n rows xf yf = [PieGroup ms] \<and> k1 \<noteq> k2
            \<and> SlicePath k1 v1 c \<in> set ms \<and> SlicePath k2 v2 c \<in> set ms"
    by blast
qed

text \<open>Claim C10, at a dataset of eleven categories.\<close>

theorem pie_colors_cycle_witness:
  "10 < length (grouped decimalToNumber rows11 ''cat'' ''v'')
   \<and> (\<exists>ms k1 v1 k2 v2 c. drawPieChart decimalToNumber rows11 ''cat'' ''v'' = [PieGroup ms]
         \<and> k1 \<noteq> k2 \<and> SlicePath k1 v1 c \<in> set ms \<and> SlicePath k2 v2 c \<in> set ms)"
proof -
  have len: "10 < length (grouped decimalToNumber rows11 ''cat'' ''v'')"
    by (simp add: grouped_rows11)
  with pie_colors_cycle [of decimalToNumber rows11 "''cat''" "''v''"] show ?thesis
    by blast
qed

end
